theory Spec2Isabelle
  imports Main
begin

section \<open>The DSL runner: values, nodes and scopes\<close>

text \<open>
  The development embeds \<^verbatim>\<open>src/src/runner.js\<close>: the recursive rule evaluator
  \<^verbatim>\<open>dslRuleHandler\<close> with its six rule handlers, and the driver \<^verbatim>\<open>run\<close>.

  JavaScript values. The interpreter itself inspects a value in three ways only:
  \<^verbatim>\<open>typeof v !== 'number'\<close>, \<^verbatim>\<open>typeof v === 'function'\<close> and
  \<^verbatim>\<open>v !== undefined\<close>. Numbers are therefore kept abstract (the type parameter
  \<open>'n\<close>; only host operations compute with them). A function value is either a host
  operation supplied through the bindings, \<open>Fn f\<close>, a reference into the table of
  host operations, or a built-in function of the JavaScript runtime that a bindings
  object inherits, \<open>Builtin nm\<close>. \<open>ObjectPrototype\<close> is the object
  \<^verbatim>\<open>Object.prototype\<close>, the value a plain object's \<^verbatim>\<open>__proto__\<close> reads as.
\<close>

datatype 'n val =
    Undefined
  | Null
  | Bool bool
  | Num 'n
  | Str string
  | Arr "'n val list"
  | Fn nat
  | Builtin string
  | ObjectPrototype

text \<open>\<^verbatim>\<open>typeof v === 'number'\<close>.\<close>

fun is_number :: "'n val \<Rightarrow> bool" where
  "is_number (Num x) = True"
| "is_number v = False"


text \<open>The values that are objects (arrays and functions are).\<close>

fun is_object :: "'n val \<Rightarrow> bool" where
  "is_object (Arr xs) = True"
| "is_object (Fn f) = True"
| "is_object (Builtin nm) = True"
| "is_object ObjectPrototype = True"
| "is_object v = False"

text \<open>
  A function is called as \<^verbatim>\<open>operation(args[0], args[1])\<close>. It either returns a value
  (\<open>Inr\<close>) or throws (\<open>Inl\<close>, carrying the text the source interpolates into its
  message as \<^verbatim>\<open>${e}\<close>). Functions are taken to be functions of their two arguments:
  one that reaches back into the interpreter's bindings objects through a captured
  reference is outside this model.
\<close>

type_synonym 'n hostfn = "'n val \<Rightarrow> 'n val \<Rightarrow> string + 'n val"
type_synonym 'n hostops = "nat \<Rightarrow> 'n hostfn"

text \<open>
  The JavaScript host the interpreter runs in, as far as the interpreter can observe
  it: \<open>ops env f\<close> is the host operation \<open>Fn f\<close>; \<open>builtin env nm\<close> is the built-in
  function \<open>Builtin nm\<close>; \<open>inherited env p k\<close> is what the property \<open>k\<close> reads as
  through a prototype object \<open>p\<close> (through \<open>ObjectPrototype\<close>: the data properties of
  \<^verbatim>\<open>Object.prototype\<close>, such as \<^verbatim>\<open>toString\<close>). The properties of the evaluator
  are proved for every host.
\<close>

record 'n env =
  ops :: "'n hostops"
  builtin :: "string \<Rightarrow> 'n hostfn"
  inherited :: "'n val \<Rightarrow> string \<Rightarrow> 'n val"

text \<open>
  \<^verbatim>\<open>typeof operation === 'function'\<close>, and the function to call: \<open>None\<close> when the
  value is not a function.
\<close>

fun invoke :: "'n env \<Rightarrow> 'n val \<Rightarrow> 'n hostfn option" where
  "invoke env (Fn f) = Some (ops env f)"
| "invoke env (Builtin nm) = Some (builtin env nm)"
| "invoke env v = None"

text \<open>
  A bindings object is a JavaScript object used as a dictionary from names to values:
  its own properties \<open>own\<close> (a name can be bound to \<^verbatim>\<open>undefined\<close> explicitly: that
  is \<open>Some Undefined\<close>, as opposed to an absent name, \<open>None\<close>), and its prototype
  \<open>proto\<close>: \<open>ObjectPrototype\<close> for a plain object, \<open>Null\<close> for an object without a
  prototype, or the object that an assignment to \<^verbatim>\<open>__proto__\<close> has put there.
\<close>

type_synonym 'n bindings = "string \<rightharpoonup> 'n val"

record 'n scope =
  own :: "'n bindings"
  proto :: "'n val"

text \<open>A plain object with the own properties \<open>m\<close>, as an object literal creates it.\<close>

definition plain :: "'n bindings \<Rightarrow> 'n scope" where
  "plain m = \<lparr>own = m, proto = ObjectPrototype\<rparr>"

text \<open>
  The property read \<^verbatim>\<open>b[name]\<close>. An own property wins. Otherwise the read goes to
  the prototype: without one the result is \<^verbatim>\<open>undefined\<close>; the name
  \<^verbatim>\<open>__proto__\<close> is the accessor of \<^verbatim>\<open>Object.prototype\<close>, whose getter returns
  the prototype; any other name reads as the prototype provides it.
\<close>

definition lookup :: "'n env \<Rightarrow> 'n scope \<Rightarrow> string \<Rightarrow> 'n val" where
  "lookup env sc k =
     (case own sc k of
        Some v \<Rightarrow> v
      | None \<Rightarrow>
          if proto sc = Null then Undefined
          else if k = ''__proto__'' then proto sc
          else inherited env (proto sc) k)"

text \<open>
  The property write \<^verbatim>\<open>b[name] = v\<close> (\<open>assign\<close>). Writing \<^verbatim>\<open>__proto__\<close> on an object that
  has no own property of that name and has a prototype reaches the setter of the
  accessor: it replaces the prototype when \<open>v\<close> is an object or \<^verbatim>\<open>null\<close> and does
  nothing otherwise; no own property is created. Every other write creates or updates
  an own property.

  Two things are not described. The accessor is taken to be in place (a host can
  delete it). And through a prototype that is a function object, a read of
  \<^verbatim>\<open>caller\<close> or \<^verbatim>\<open>arguments\<close> and a write of \<^verbatim>\<open>name\<close>, \<^verbatim>\<open>length\<close>,
  \<^verbatim>\<open>caller\<close> or \<^verbatim>\<open>arguments\<close> throw a TypeError in the source, which
  \<open>lookup\<close> and \<open>assign\<close> do not do. The properties of assignments, of identifiers
  and of calls that fail are therefore stated for a scope whose prototype is not a
  function, \<open>\<not> is_function (proto (heap s ! b))\<close>.
\<close>

definition assign :: "'n scope \<Rightarrow> string \<Rightarrow> 'n val \<Rightarrow> 'n scope" where
  "assign sc k v =
     (if k = ''__proto__'' \<and> own sc k = None \<and> proto sc \<noteq> Null
      then (if is_object v \<or> v = Null then sc\<lparr>proto := v\<rparr> else sc)
      else sc\<lparr>own := (own sc)(k \<mapsto> v)\<rparr>)"

text \<open>
  \<^verbatim>\<open>Object.assign(target, source)\<close> for one source: every own property of the
  source is written to the target with the property write above, so an own property
  \<^verbatim>\<open>__proto__\<close> of the source goes through the setter.
\<close>

definition assignAll :: "'n scope \<Rightarrow> 'n bindings \<Rightarrow> 'n scope" where
  "assignAll t m =
     (case m ''__proto__'' of
        None \<Rightarrow> t\<lparr>own := own t ++ m\<rparr>
      | Some v \<Rightarrow> assign (t\<lparr>own := own t ++ m(''__proto__'' := None)\<rparr>) ''__proto__'' v)"

text \<open>
  \<^verbatim>\<open>Object.assign({}, pB, pN.bindings)\<close>: a new plain object that receives the own
  properties of the parent scope and then the block's own bindings. What the parent
  inherits is not copied.
\<close>

definition childScope :: "'n scope \<Rightarrow> 'n bindings \<Rightarrow> 'n scope" where
  "childScope pB bs = assignAll (assignAll (plain Map.empty) (own pB)) bs"

text \<open>
  Node ids are opaque; a node written without an \<^verbatim>\<open>id\<close> has the id \<open>None\<close>
  (\<^verbatim>\<open>undefined\<close> in the source).
\<close>

type_synonym ident = "nat option"

text \<open>The callee of a Function node: the source reads only \<^verbatim>\<open>callee.name\<close>.\<close>

datatype callee = Callee (name: string)

text \<open>
  \<^verbatim>\<open>DslNode\<close>, a JavaScript object tagged by its \<^verbatim>\<open>shape\<close> string, as a datatype
  with one constructor per recognised shape and the fields that shape's handler reads.
  \<open>Other i t\<close> is a node whose tag \<open>t\<close> is none of the six recognised names (or is
  missing, \<open>None\<close>): the \<^verbatim>\<open>default\<close> arm of the switch. Nodes with a recognised tag
  and a field of the wrong type or missing are excluded by the types. The
  \<^verbatim>\<open>bindings\<close> of a Block node are its own properties.
\<close>

datatype 'n node =
    Literal ident "'n val"
  | Identifier ident string
  | Assignment ident string "'n node"
  | Function ident callee "'n node list"
  | Array ident "'n node list"
  | Block ident "'n node list" "'n bindings"
  | Other ident "string option"

fun id_of :: "'n node \<Rightarrow> ident" where
  "id_of (Literal i v) = i"
| "id_of (Identifier i k) = i"
| "id_of (Assignment i k v) = i"
| "id_of (Function i c as) = i"
| "id_of (Array i ns) = i"
| "id_of (Block i ns bs) = i"
| "id_of (Other i t) = i"


text \<open>
  The errors the handlers throw with \<^verbatim>\<open>new Error(...)\<close>, one constructor per
  message, named by the specification's error kinds; each carries the \<^verbatim>\<open>n.id\<close> the
  message interpolates:
  \<^item> \<open>TypeMismatch\<close>: \<^verbatim>\<open>literalHandler(): node ${n.id} not type number\<close>;
  \<^item> \<open>InvalidPosition\<close>: \<^verbatim>\<open>assignmentRuleHandler: node ${n.id} invalid parent\<close>;
  \<^item> \<open>NotAFunction\<close>: \<^verbatim>\<open>... invalid operation: not type function error\<close>;
  \<^item> \<open>OperationError\<close>: \<^verbatim>\<open>... invalid operation: ${e}\<close>.
\<close>

datatype error =
    TypeMismatch ident
  | InvalidPosition ident
  | NotAFunction ident
  | OperationError ident string

text \<open>
  The state the evaluator works on. Bindings objects are shared by reference and
  mutated in place, so they live in a store: \<open>heap s ! a\<close> is the object at address
  \<open>a\<close>, and \<^verbatim>\<open>Object.assign({}, ...)\<close> allocates the next address. \<open>errlog\<close> is what
  \<^verbatim>\<open>console.error\<close> has received, oldest first. In the source a bindings reference
  always refers to an existing object; the properties below that read a scope \<open>b\<close>
  assume \<open>b < length (heap s)\<close>.
\<close>

record 'n state =
  heap :: "'n scope list"
  errlog :: "error list"

definition alloc :: "'n scope \<Rightarrow> 'n state \<Rightarrow> nat \<times> 'n state" where
  "alloc sc s = (length (heap s), s\<lparr>heap := heap s @ [sc]\<rparr>)"

definition bind :: "nat \<Rightarrow> string \<Rightarrow> 'n val \<Rightarrow> 'n state \<Rightarrow> 'n state" where
  "bind b k v s = s\<lparr>heap := (heap s)[b := assign (heap s ! b) k v]\<rparr>"

definition report :: "error \<Rightarrow> 'n state \<Rightarrow> 'n state" where
  "report e s = s\<lparr>errlog := errlog s @ [e]\<rparr>"

section \<open>The rule handlers\<close>

text \<open>\<^verbatim>\<open>literalRuleHandler(n)\<close>.\<close>

definition literalRuleHandler :: "ident \<Rightarrow> 'n val \<Rightarrow> error + 'n val" where
  "literalRuleHandler i v = (if \<not> is_number v then Inl (TypeMismatch i) else Inr v)"

text \<open>\<^verbatim>\<open>identifierRuleHandler(n, b)\<close>: \<^verbatim>\<open>return b[n.name]\<close>.\<close>

definition identifierRuleHandler :: "'n env \<Rightarrow> string \<Rightarrow> nat \<Rightarrow> 'n state \<Rightarrow> 'n val" where
  "identifierRuleHandler env k b s = lookup env (heap s ! b) k"

text \<open>
  \<^verbatim>\<open>args[0]\<close>, \<^verbatim>\<open>args[1]\<close>: reading a JavaScript array past its end gives
  \<^verbatim>\<open>undefined\<close>.
\<close>

definition arg :: "'n val list \<Rightarrow> nat \<Rightarrow> 'n val" where
  "arg vs k = (if k < length vs then vs ! k else Undefined)"

text \<open>
  The \<^verbatim>\<open>catch\<close> of \<^verbatim>\<open>dslRuleHandler\<close>: \<^verbatim>\<open>console.error(e); return undefined\<close>.
\<close>

fun catch :: "(error + 'n val) \<times> 'n state \<Rightarrow> 'n val \<times> 'n state" where
  "catch (Inl e, s) = (Undefined, report e s)"
| "catch (Inr v, s) = (v, s)"

text \<open>
  The evaluator. \<open>dslRuleHandler env node pN b s\<close> is
  \<^verbatim>\<open>dslRuleHandler(node, parentNode, bindings)\<close> run in state \<open>s\<close>, where \<open>pN\<close> is
  \<^verbatim>\<open>parentNode.shape\<close> (all the source reads of the parent; a handler that passes
  its own node as the parent passes that node's tag, e.g. \<open>Some ''Function''\<close>) and
  \<open>b\<close> the address of \<^verbatim>\<open>bindings\<close>. \<open>switch\<close> is the body of its \<^verbatim>\<open>try\<close>; a
  handler that throws returns \<open>Inl\<close>, with the state as the throw left it. The three
  \<^verbatim>\<open>for\<close> loops are \<open>executeCalleeAndArgs\<close> (which returns the contents of
  \<^verbatim>\<open>args\<close> after the loop), \<open>blockLoop\<close> and \<open>arrayLoop\<close>. The handlers receive the
  fields of their node.

  \<^verbatim>\<open>executeCalleeAndArgs\<close> overwrites \<^verbatim>\<open>N.args\<close> in place with the values. A node
  value here is a tree without sharing and every node of it is evaluated at most once in
  a run, so the overwritten array is not read again and the tree is not part of the
  state.
\<close>

function dslRuleHandler ::
    "'n::zero env \<Rightarrow> 'n node \<Rightarrow> string option \<Rightarrow> nat \<Rightarrow> 'n state \<Rightarrow> 'n val \<times> 'n state"
  and switch ::
    "'n env \<Rightarrow> 'n node \<Rightarrow> string option \<Rightarrow> nat \<Rightarrow> 'n state \<Rightarrow> (error + 'n val) \<times> 'n state"
  and assignmentRuleHandler ::
    "'n env \<Rightarrow> ident \<Rightarrow> string \<Rightarrow> 'n node \<Rightarrow> string option \<Rightarrow> nat \<Rightarrow> 'n state
      \<Rightarrow> (error + 'n val) \<times> 'n state"
  and functionRuleHandler ::
    "'n env \<Rightarrow> ident \<Rightarrow> callee \<Rightarrow> 'n node list \<Rightarrow> nat \<Rightarrow> 'n state
      \<Rightarrow> (error + 'n val) \<times> 'n state"
  and executeCalleeAndArgs ::
    "'n env \<Rightarrow> 'n node list \<Rightarrow> nat \<Rightarrow> 'n state \<Rightarrow> 'n val list \<times> 'n state"
  and blockRuleHandler ::
    "'n env \<Rightarrow> 'n node list \<Rightarrow> 'n bindings \<Rightarrow> nat \<Rightarrow> 'n state \<Rightarrow> 'n val \<times> 'n state"
  and blockLoop ::
    "'n env \<Rightarrow> 'n node list \<Rightarrow> nat \<Rightarrow> 'n val \<Rightarrow> 'n state \<Rightarrow> 'n val \<times> 'n state"
  and arrayRuleHandler ::
    "'n env \<Rightarrow> 'n node list \<Rightarrow> nat \<Rightarrow> 'n state \<Rightarrow> 'n val list \<times> 'n state"
  and arrayLoop ::
    "'n env \<Rightarrow> 'n node list \<Rightarrow> nat \<Rightarrow> 'n val list \<Rightarrow> 'n state \<Rightarrow> 'n val list \<times> 'n state"
where
  "dslRuleHandler env node pN b s = catch (switch env node pN b s)"

| "switch env (Block i ns bs) pN b s =
     (case blockRuleHandler env ns bs b s of (v, s') \<Rightarrow> (Inr v, s'))"
| "switch env (Assignment i k v) pN b s = assignmentRuleHandler env i k v pN b s"
| "switch env (Array i ns) pN b s =
     (case arrayRuleHandler env ns b s of (r, s') \<Rightarrow> (Inr (Arr r), s'))"
| "switch env (Function i c as) pN b s = functionRuleHandler env i c as b s"
| "switch env (Literal i v) pN b s = (literalRuleHandler i v, s)"
| "switch env (Identifier i k) pN b s = (Inr (identifierRuleHandler env k b s), s)"
| "switch env (Other i t) pN b s = (Inr Undefined, s)"

| "assignmentRuleHandler env i k v pN b s =
     (if pN = Some ''Block'' then
        (case dslRuleHandler env v (Some ''Assignment'') b s of (x, s1) \<Rightarrow>
           (let s2 = (if x \<noteq> Undefined then bind b k x s1 else s1)
            in (Inr (lookup env (heap s2 ! b) k), s2)))
      else (Inl (InvalidPosition i), s))"

| "functionRuleHandler env i c as b s =
     (case executeCalleeAndArgs env as b s of (args, s1) \<Rightarrow>
        (case invoke env (lookup env (heap s1 ! b) (name c)) of
           Some operation \<Rightarrow>
             (case operation (arg args 0) (arg args 1) of
                Inr r \<Rightarrow> (Inr r, s1)
              | Inl e \<Rightarrow> (Inl (OperationError i e), s1))
         | None \<Rightarrow> (Inl (NotAFunction i), s1)))"

| "executeCalleeAndArgs env [] b s = ([], s)"
| "executeCalleeAndArgs env (cN # rest) b s =
     (case dslRuleHandler env cN (Some ''Function'') b s of (x, s1) \<Rightarrow>
        (case executeCalleeAndArgs env rest b s1 of (xs, s2) \<Rightarrow> (x # xs, s2)))"

| "blockRuleHandler env ns bs pB s =
     (case alloc (childScope (heap s ! pB) bs) s of (cB, s0) \<Rightarrow>
        blockLoop env ns cB (Num 0) s0)"

| "blockLoop env [] cB rB s = (rB, s)"
| "blockLoop env (childNode # rest) cB rB s =
     (case dslRuleHandler env childNode (Some ''Block'') cB s of (x, s1) \<Rightarrow>
        blockLoop env rest cB (if x \<noteq> Undefined then x else rB) s1)"

| "arrayRuleHandler env ns b s = arrayLoop env ns b [] s"

| "arrayLoop env [] b r s = (r, s)"
| "arrayLoop env (childNode # rest) b r s =
     (case dslRuleHandler env childNode (Some ''Array'') b s of (x, s1) \<Rightarrow>
        arrayLoop env rest b (if x \<noteq> Undefined then r @ [x] else r) s1)"

  by pat_completeness auto

text \<open>
  Every call descends into the node: the measure is three times the size of the node
  (or of the node list) still to be evaluated, plus the rank of the function within
  one level.
\<close>

termination
  by (relation "measure
        (case_sum
          (case_sum
            (case_sum (\<lambda>(env, node, pN, b, s). 3 * size node + 2)
                      (\<lambda>(env, node, pN, b, s). 3 * size node + 1))
            (case_sum (\<lambda>(env, i, k, v, pN, b, s). 3 * size v + 3)
                      (\<lambda>(env, i, c, as, b, s). 3 * size_list size as + 1)))
          (case_sum
            (case_sum (\<lambda>(env, as, b, s). 3 * size_list size as)
                      (\<lambda>(env, ns, bs, pB, s). 3 * size_list size ns + 1))
            (case_sum (\<lambda>(env, ns, cB, rB, s). 3 * size_list size ns)
              (case_sum (\<lambda>(env, ns, b, s). 3 * size_list size ns + 1)
                        (\<lambda>(env, ns, b, r, s). 3 * size_list size ns)))))")
     auto

declare dslRuleHandler.simps [simp del] assignmentRuleHandler.simps [simp del]
  functionRuleHandler.simps [simp del] blockRuleHandler.simps [simp del]
  arrayRuleHandler.simps [simp del]

section \<open>The driver\<close>

text \<open>
  The root \<^verbatim>\<open>ast\<close> passed to \<^verbatim>\<open>run\<close>: the source reads \<^verbatim>\<open>ast.nodes\<close> and
  \<^verbatim>\<open>ast.bindings\<close> (the root bindings object), and hands \<^verbatim>\<open>ast\<close> to the
  evaluator as the parent of every top-level node, which reads \<^verbatim>\<open>ast.shape\<close>
  (\<open>None\<close> when the root object has no \<^verbatim>\<open>shape\<close> property).
\<close>

record 'n ast =
  root_shape :: "string option"
  nodes :: "'n node list"
  bindings :: "'n scope"

text \<open>
  The loop of \<^verbatim>\<open>run\<close>. \<open>rMap\<close> is the result object, keyed by node id;
  \<^verbatim>\<open>interestIds.includes(id)\<close> is membership in the list.
\<close>

fun runLoop ::
    "'n::zero env \<Rightarrow> 'n node list \<Rightarrow> string option \<Rightarrow> nat \<Rightarrow> ident list
      \<Rightarrow> (ident \<rightharpoonup> 'n val) \<Rightarrow> 'n state \<Rightarrow> (ident \<rightharpoonup> 'n val) \<times> 'n state" where
  "runLoop env [] pN b interestIds rMap s = (rMap, s)"
| "runLoop env (childNode # rest) pN b interestIds rMap s =
     (case dslRuleHandler env childNode pN b s of (v, s1) \<Rightarrow>
        runLoop env rest pN b interestIds
          (if id_of childNode \<in> set interestIds \<and> v \<noteq> Undefined
           then rMap(id_of childNode \<mapsto> v) else rMap) s1)"

text \<open>
  \<^verbatim>\<open>run(ast, interestIds)\<close>, started with nothing logged and the root bindings object
  as the only object in the store, at address 0. The result is \<open>rMap\<close> together with
  the final state (the root bindings as the run left them, and the diagnostics).
\<close>

definition run ::
    "'n::zero env \<Rightarrow> 'n ast \<Rightarrow> ident list \<Rightarrow> (ident \<rightharpoonup> 'n val) \<times> 'n state" where
  "run env ast interestIds =
     runLoop env (nodes ast) (root_shape ast) 0 interestIds Map.empty
       \<lparr>heap = [bindings ast], errlog = []\<rparr>"

section \<open>Notions used to state the properties\<close>

text \<open>
  \<open>frame A s s'\<close>: going from \<open>s\<close> to \<open>s'\<close>, bindings objects were only added to
  the store, every object that existed at an address outside \<open>A\<close> is as it was, and
  diagnostics were only appended to the log.
\<close>

definition frame :: "nat set \<Rightarrow> 'n state \<Rightarrow> 'n state \<Rightarrow> bool" where
  "frame A s s' \<longleftrightarrow>
     length (heap s) \<le> length (heap s') \<and>
     (\<forall>a < length (heap s). a \<notin> A \<longrightarrow> heap s' ! a = heap s ! a) \<and>
     (\<exists>es. errlog s' = errlog s @ es)"

text \<open>
  The specification's reading of "evaluates each node in order, in the same scope": the
  values the nodes \<open>ns\<close> produce, one per node, each node evaluated in the state its
  predecessor left, all with parent shape \<open>pN\<close> and bindings \<open>b\<close>.
\<close>

fun evalInOrder ::
    "'n::zero env \<Rightarrow> 'n node list \<Rightarrow> string option \<Rightarrow> nat \<Rightarrow> 'n state
      \<Rightarrow> 'n val list \<times> 'n state" where
  "evalInOrder env [] pN b s = ([], s)"
| "evalInOrder env (n # ns) pN b s =
     (case dslRuleHandler env n pN b s of (x, s1) \<Rightarrow>
        (case evalInOrder env ns pN b s1 of (xs, s2) \<Rightarrow> (x # xs, s2)))"


section \<open>A host and the end-to-end scenario\<close>

text \<open>
  The host used in the examples: the ECMAScript runtime as it starts, with the given
  table of host operations. Through \<^verbatim>\<open>Object.prototype\<close> a plain object inherits
  eleven built-in functions and nothing else. Called as \<^verbatim>\<open>operation(x, y)\<close>, without
  a receiver, \<^verbatim>\<open>Object.prototype.toString\<close> returns \<^verbatim>\<open>"[object Undefined]"\<close>. What
  the other ten return or throw, and what is inherited through an array or a function
  once an assignment to \<^verbatim>\<open>__proto__\<close> has made it a prototype, is left unspecified:
  no example depends on it.
\<close>

definition object_prototype_functions :: "string list" where
  "object_prototype_functions =
     [''constructor'', ''hasOwnProperty'', ''isPrototypeOf'', ''propertyIsEnumerable'',
      ''toLocaleString'', ''toString'', ''valueOf'', ''__defineGetter__'',
      ''__defineSetter__'', ''__lookupGetter__'', ''__lookupSetter__'']"

definition js_inherited :: "'n val \<Rightarrow> string \<Rightarrow> 'n val" where
  "js_inherited p k =
     (if p = ObjectPrototype
      then (if k \<in> set object_prototype_functions then Builtin k else Undefined)
      else undefined)"

definition js_builtin :: "string \<Rightarrow> 'n hostfn" where
  "js_builtin nm x y =
     (if nm = ''toString'' then Inr (Str ''[object Undefined]'') else undefined)"

definition js_env :: "'n hostops \<Rightarrow> 'n env" where
  "js_env table = \<lparr>ops = table, builtin = js_builtin, inherited = js_inherited\<rparr>"

text \<open>
  Numbers for the scenario: the integer-valued doubles (in the range where integer
  arithmetic on doubles is exact) and \<^verbatim>\<open>NaN\<close>.
\<close>

datatype number = Finite int | NaN

instantiation number :: zero
begin

definition zero_number :: number where
  "zero_number = Finite 0"

instance ..

end

text \<open>
  The host operation \<^verbatim>\<open>(x, y) => x + y\<close> on operands that are numbers,
  \<^verbatim>\<open>undefined\<close>, \<^verbatim>\<open>null\<close> or booleans: JavaScript converts both with ToNumber
  (\<^verbatim>\<open>undefined\<close> to \<^verbatim>\<open>NaN\<close>, \<^verbatim>\<open>null\<close> to 0, \<^verbatim>\<open>true\<close> to 1) and adds,
  and a sum with \<^verbatim>\<open>NaN\<close> is \<^verbatim>\<open>NaN\<close>. With a string, array or function operand
  JavaScript concatenates strings instead; that case does not arise in the scenario and
  is not modelled (\<open>toNumber\<close> gives \<open>NaN\<close> there).
\<close>

fun toNumber :: "number val \<Rightarrow> number" where
  "toNumber Undefined = NaN"
| "toNumber Null = Finite 0"
| "toNumber (Bool t) = Finite (if t then 1 else 0)"
| "toNumber (Num n) = n"
| "toNumber v = NaN"

fun addNumber :: "number \<Rightarrow> number \<Rightarrow> number" where
  "addNumber (Finite x) (Finite y) = Finite (x + y)"
| "addNumber x y = NaN"

definition add :: "number hostfn" where
  "add x y = Inr (Num (addNumber (toNumber x) (toNumber y)))"

text \<open>
  The only host operation of the scenario is \<open>Fn 0\<close>, bound to the name
  \<^verbatim>\<open>add\<close>; the table of host operations holds \<open>add\<close>.
\<close>

definition scenario_ops :: "number hostops" where
  "scenario_ops f = add"

text \<open>
  The scenario's top-level nodes and root bindings, as the specification writes them
  (the two Literal nodes, the Identifier node and the callee carry no id):
  \<^verbatim>\<open>[{id:1, shape:Assignment, name:'a', value:{shape:Literal, value:2}},
    {id:2, shape:Function, callee:{name:'add'},
     args:[{shape:Identifier, name:'a'}, {shape:Literal, value:3}]}]\<close>
  and the object literal \<^verbatim>\<open>{add: (x, y) => x + y}\<close>. The root's \<^verbatim>\<open>shape\<close> is
  the parameter.
\<close>

definition scenario_ast :: "string option \<Rightarrow> number ast" where
  "scenario_ast t =
     \<lparr>root_shape = t,
      nodes =
        [Assignment (Some 1) ''a'' (Literal None (Num (Finite 2))),
         Function (Some 2) (Callee ''add'')
           [Identifier None ''a'', Literal None (Num (Finite 3))]],
      bindings = plain [''add'' \<mapsto> Fn 0]\<rparr>"

text \<open>A table of host operations for examples: every operation returns \<^verbatim>\<open>undefined\<close>.\<close>

definition void_ops :: "int hostops" where
  "void_ops f x y = Inr Undefined"

text \<open>A table whose operations all throw.\<close>

definition throwing_ops :: "int hostops" where
  "throwing_ops f x y = Inl ''boom''"

section \<open>Reading and writing a scope\<close>







section \<open>What evaluation leaves unchanged\<close>

lemma frame_refl: "frame A s s"
  by (simp add: frame_def)

lemma frame_trans: "frame A s s1 \<Longrightarrow> frame A s1 s2 \<Longrightarrow> frame A s s2"
  unfolding frame_def by (auto; fastforce)

lemma frame_mono: "frame A s s' \<Longrightarrow> A \<subseteq> B \<Longrightarrow> frame B s s'"
  unfolding frame_def by auto

lemma frame_report: "frame A s (report e s)"
  by (simp add: frame_def report_def)

lemma frame_bind: "frame {b} s (bind b k v s)"
  by (simp add: frame_def bind_def)

lemma frame_catch: "frame A s (snd p) \<Longrightarrow> frame A s (snd (catch p))"
  by (cases p rule: catch.cases) (auto intro: frame_trans frame_report)

lemma frame_drop_fresh:
  "frame {length (heap s)} (snd (alloc m s)) s' \<Longrightarrow> frame {} s s'"
  unfolding frame_def alloc_def by (auto simp: nth_append)

lemma frame_same: "frame {} s s' \<Longrightarrow> a < length (heap s) \<Longrightarrow> heap s' ! a = heap s ! a"
  by (simp add: frame_def)


lemmas eval_induct =
  dslRuleHandler_switch_assignmentRuleHandler_functionRuleHandler_executeCalleeAndArgs_blockRuleHandler_blockLoop_arrayRuleHandler_arrayLoop.induct

text \<open>
  The frame of every function of the evaluator, by induction along its calls: a node
  under a Block parent may change the scope it is evaluated in, and nothing else that
  exists; any other evaluation changes nothing that exists.
\<close>

lemma eval_frame:
  fixes env :: "'n::zero env"
  shows "frame (if pN = Some ''Block'' then {b} else {}) s (snd (dslRuleHandler env node pN b s))"
    and "frame (if pN = Some ''Block'' then {b} else {}) s (snd (switch env node pN b s))"
    and "frame (if pN = Some ''Block'' then {b} else {}) s
           (snd (assignmentRuleHandler env i k v pN b s))"
    and "frame {} s (snd (functionRuleHandler env i c as b s))"
    and "frame {} s (snd (executeCalleeAndArgs env as b s))"
    and "frame {} s (snd (blockRuleHandler env ns bs pB s))"
    and "frame {cB} s (snd (blockLoop env ns cB rB s))"
    and "frame {} s (snd (arrayRuleHandler env ns b s))"
    and "frame {} s (snd (arrayLoop env ns b r s))"
proof (induction env node pN b s and env node pN b s and env i k v pN b s and env i c as b s
        and env as b s and env ns bs pB s and env ns cB rB s and env ns b s and env ns b r s
        rule: eval_induct)
  case (1 env node pN b s)
  then show ?case by (simp add: frame_catch dslRuleHandler.simps)
next
  case (2 env i ns bs pN b s)
  then show ?case by (auto split: prod.splits intro: frame_mono)
next
  case (3 env i k v pN b s)
  then show ?case by simp
next
  case (4 env i ns pN b s)
  then show ?case by (auto split: prod.splits intro: frame_mono)
next
  case (5 env i c as pN b s)
  then show ?case by (auto split: prod.splits intro: frame_mono)
next
  case (6 env i v pN b s)
  then show ?case by (simp add: frame_refl)
next
  case (7 env i k pN b s)
  then show ?case by (simp add: frame_refl)
next
  case (8 env i t pN b s)
  then show ?case by (simp add: frame_refl)
next
  case (9 env i k v pN b s)
  show ?case
  proof (cases "pN = Some ''Block''")
    case True
    obtain x s1 where e: "dslRuleHandler env v (Some ''Assignment'') b s = (x, s1)"
      by (cases "dslRuleHandler env v (Some ''Assignment'') b s")
    from 9 True e have "frame {} s s1" by simp
    then have f1: "frame {b} s s1" by (rule frame_mono) simp
    have "frame {b} s1 (bind b k x s1)" by (rule frame_bind)
    with f1 have "frame {b} s (bind b k x s1)" by (rule frame_trans)
    with f1 True e show ?thesis by (simp add: Let_def assignmentRuleHandler.simps)
  next
    case False
    then show ?thesis by (simp add: frame_refl assignmentRuleHandler.simps)
  qed
next
  case (10 env i c as b s)
  then show ?case
    by (auto simp: functionRuleHandler.simps split: prod.splits option.splits sum.splits)
next
  case (11 env b s)
  then show ?case by (simp add: frame_refl)
next
  case (12 env cN rest b s)
  obtain x s1 where e: "dslRuleHandler env cN (Some ''Function'') b s = (x, s1)"
    by (cases "dslRuleHandler env cN (Some ''Function'') b s")
  from 12(1) e have f1: "frame {} s s1" by simp
  from 12(2)[OF e[symmetric]] have "frame {} s1 (snd (executeCalleeAndArgs env rest b s1))" .
  with f1 have "frame {} s (snd (executeCalleeAndArgs env rest b s1))" by (rule frame_trans)
  with e show ?case by (auto split: prod.splits)
next
  case (13 env ns bs pB s)
  obtain cB s0 where a: "alloc (childScope (heap s ! pB) bs) s = (cB, s0)"
    by (cases "alloc (childScope (heap s ! pB) bs) s")
  then have cB: "cB = length (heap s)" by (auto simp: alloc_def)
  from 13[OF a[symmetric]] have "frame {cB} s0 (snd (blockLoop env ns cB (Num 0) s0))" .
  with a cB have "frame {length (heap s)} (snd (alloc (childScope (heap s ! pB) bs) s))
      (snd (blockLoop env ns cB (Num 0) s0))" by simp
  then have "frame {} s (snd (blockLoop env ns cB (Num 0) s0))" by (rule frame_drop_fresh)
  with a show ?case by (simp add: blockRuleHandler.simps)
next
  case (14 env cB rB s)
  then show ?case by (simp add: frame_refl)
next
  case (15 env childNode rest cB rB s)
  obtain x s1 where e: "dslRuleHandler env childNode (Some ''Block'') cB s = (x, s1)"
    by (cases "dslRuleHandler env childNode (Some ''Block'') cB s")
  from 15(1) e have f1: "frame {cB} s s1" by simp
  from 15(2)[OF e[symmetric]]
  have "frame {cB} s1 (snd (blockLoop env rest cB (if x \<noteq> Undefined then x else rB) s1))" .
  with f1 have "frame {cB} s (snd (blockLoop env rest cB (if x \<noteq> Undefined then x else rB) s1))"
    by (rule frame_trans)
  with e show ?case by simp
next
  case (16 env ns b s)
  then show ?case by (simp add: arrayRuleHandler.simps)
next
  case (17 env b r s)
  then show ?case by (simp add: frame_refl)
next
  case (18 env childNode rest b r s)
  obtain x s1 where e: "dslRuleHandler env childNode (Some ''Array'') b s = (x, s1)"
    by (cases "dslRuleHandler env childNode (Some ''Array'') b s")
  from 18(1) e have f1: "frame {} s s1" by simp
  from 18(2)[OF e[symmetric]]
  have "frame {} s1 (snd (arrayLoop env rest b (if x \<noteq> Undefined then r @ [x] else r) s1))" .
  with f1 have "frame {} s (snd (arrayLoop env rest b (if x \<noteq> Undefined then r @ [x] else r) s1))"
    by (rule frame_trans)
  with e show ?case by simp
qed



lemma execute_frame:
  fixes env :: "'n::zero env"
  assumes "executeCalleeAndArgs env as b s = (args, s1)"
  shows "frame {} s s1"
  using eval_frame(5)[of s env as b] assms by simp

section \<open>Loops as evaluation in order\<close>

lemma execute_evalInOrder:
  "executeCalleeAndArgs env as b s = evalInOrder env as (Some ''Function'') b s"
  by (induction as arbitrary: s) (auto split: prod.splits)

lemma evalInOrder_length: "length (fst (evalInOrder env ns pN b s)) = length ns"
proof (induction ns arbitrary: s)
  case Nil
  show ?case by simp
next
  case (Cons n ns)
  obtain x s1 where e: "dslRuleHandler env n pN b s = (x, s1)"
    by (cases "dslRuleHandler env n pN b s")
  obtain xs s2 where r: "evalInOrder env ns pN b s1 = (xs, s2)"
    by (cases "evalInOrder env ns pN b s1")
  from Cons[of s1] r have "length xs = length ns" by simp
  with e r show ?case by simp
qed










section \<open>The handlers seen through the dispatcher\<close>

text \<open>The equations that evaluate a concrete program in the host \<open>js_env\<close>.\<close>

lemmas eval_simps =
  dslRuleHandler.simps assignmentRuleHandler.simps functionRuleHandler.simps
  blockRuleHandler.simps arrayRuleHandler.simps literalRuleHandler_def
  identifierRuleHandler_def lookup_def assign_def bind_def alloc_def report_def arg_def
  plain_def childScope_def assignAll_def js_env_def js_inherited_def js_builtin_def
  object_prototype_functions_def

text \<open>
  A Function node, in a scope that exists: the arguments are evaluated first, then the
  callee's name is looked up. Evaluating the arguments cannot rebind it, so the lookup
  can be read in the state before the call.
\<close>

lemma function_dispatch:
  fixes env :: "'n::zero env"
  assumes "b < length (heap s)"
    and "executeCalleeAndArgs env as b s = (args, s1)"
  shows "dslRuleHandler env (Function i c as) pN b s =
           catch (case invoke env (lookup env (heap s ! b) (name c)) of
                    Some operation \<Rightarrow>
                      (case operation (arg args 0) (arg args 1) of
                         Inr r \<Rightarrow> (Inr r, s1)
                       | Inl e \<Rightarrow> (Inl (OperationError i e), s1))
                  | None \<Rightarrow> (Inl (NotAFunction i), s1))"
proof -
  from assms(2) have "frame {} s s1" by (rule execute_frame)
  then have "heap s1 ! b = heap s ! b" using assms(1) by (rule frame_same)
  with assms(2) show ?thesis
    by (simp add: dslRuleHandler.simps functionRuleHandler.simps)
qed

text \<open>
  A name that a plain scope inherits as a built-in function is invocable: in an empty
  scope the call \<^verbatim>\<open>toString()\<close> applies \<^verbatim>\<open>Object.prototype.toString\<close> and
  nothing is logged.
\<close>

lemma inherited_function_is_called:
  "dslRuleHandler (js_env void_ops) (Function (Some 1) (Callee ''toString'') []) None 0
       \<lparr>heap = [plain Map.empty], errlog = []\<rparr>
     = (Str ''[object Undefined]'', \<lparr>heap = [plain Map.empty], errlog = []\<rparr>)"
  by (simp add: eval_simps)

text \<open>An error that escapes a node's handler is about that node, not about a descendant.\<close>

lemma switch_error_is_own:
  fixes env :: "'n::zero env"
  assumes "switch env node pN b s = (Inl e, s')"
  shows "e = TypeMismatch (id_of node) \<or> e = InvalidPosition (id_of node) \<or>
         e = NotAFunction (id_of node) \<or> (\<exists>m. e = OperationError (id_of node) m)"
  using assms
  by (cases node)
     (auto simp: literalRuleHandler_def assignmentRuleHandler.simps functionRuleHandler.simps
           Let_def split: prod.splits if_splits option.splits sum.splits)


section \<open>The end-to-end scenario, evaluated\<close>

text \<open>
  C1, as stated. The specification's AST is an object with \<^verbatim>\<open>nodes\<close> and
  \<^verbatim>\<open>bindings\<close> and no \<^verbatim>\<open>shape\<close>. \<^verbatim>\<open>run\<close> passes it as the parent of the
  top-level Assignment, whose handler requires \<^verbatim>\<open>pN.shape === 'Block'\<close>: the
  Assignment throws, nothing is bound to \<^verbatim>\<open>a\<close>, the Function node calls
  \<^verbatim>\<open>add(undefined, 3)\<close>, and \<^verbatim>\<open>run\<close> returns \<^verbatim>\<open>{2: NaN}\<close>, not \<^verbatim>\<open>{2: 5}\<close>.
\<close>

theorem scenario_without_root_shape_counterexample:
  "fst (run (js_env scenario_ops) (scenario_ast None) [Some 2]) = [Some 2 \<mapsto> Num NaN] \<and>
   fst (run (js_env scenario_ops) (scenario_ast None) [Some 2]) (Some 2)
     \<noteq> Some (Num (Finite 5)) \<and>
   errlog (snd (run (js_env scenario_ops) (scenario_ast None) [Some 2]))
     = [InvalidPosition (Some 1)]"
  by (simp add: run_def scenario_ast_def scenario_ops_def add_def eval_simps)

text \<open>
  C1, amended. For the same top-level nodes and root bindings under a root whose shape
  is \<^verbatim>\<open>Block\<close>, \<^verbatim>\<open>run\<close> with \<^verbatim>\<open>interestIds = [2]\<close> returns exactly
  \<^verbatim>\<open>{2: 5}\<close>, and logs nothing.
\<close>

theorem scenario_with_block_root:
  "fst (run (js_env scenario_ops) (scenario_ast (Some ''Block'')) [Some 2])
     = [Some 2 \<mapsto> Num (Finite 5)] \<and>
   errlog (snd (run (js_env scenario_ops) (scenario_ast (Some ''Block'')) [Some 2])) = []"
  by (simp add: run_def scenario_ast_def scenario_ops_def add_def eval_simps)

section \<open>Assignments\<close>




text \<open>
  C5. An Assignment node whose parent is not a Block (the parent shape a Function
  passes for its arguments, an Array for its elements, a root that is not a Block) fails
  with InvalidPosition: its value is \<^verbatim>\<open>undefined\<close>, the diagnostic is logged, and
  the store is untouched, so no binding is added; the right-hand side is not even
  evaluated. In an argument list and in an array the loop goes on with the next node,
  and a run whose only top-level node is such an Assignment returns the empty mapping.
\<close>

theorem assignment_outside_block_fails:
  fixes env :: "'n::zero env"
  assumes "pN \<noteq> Some ''Block''"
  shows "dslRuleHandler env (Assignment i k v) pN b s
           = (Undefined, report (InvalidPosition i) s) \<and>
         heap (snd (dslRuleHandler env (Assignment i k v) pN b s)) = heap s \<and>
         executeCalleeAndArgs env (Assignment i k v # rest) b s
           = (case executeCalleeAndArgs env rest b (report (InvalidPosition i) s) of
                (xs, s2) \<Rightarrow> (Undefined # xs, s2)) \<and>
         arrayLoop env (Assignment i k v # rest) b r s
           = arrayLoop env rest b r (report (InvalidPosition i) s) \<and>
         run env \<lparr>root_shape = pN, nodes = [Assignment i k v], bindings = m\<rparr> ids
           = (Map.empty, \<lparr>heap = [m], errlog = [InvalidPosition i]\<rparr>)"
proof -
  have "\<And>p b s. p \<noteq> Some ''Block'' \<Longrightarrow> dslRuleHandler env (Assignment i k v) p b s
           = (Undefined, report (InvalidPosition i) s)"
    by (simp add: dslRuleHandler.simps assignmentRuleHandler.simps)
  then show ?thesis using assms by (simp add: report_def run_def)
qed

theorem assignment_outside_block_fails_witness:
  "(Some ''Function'' :: string option) \<noteq> Some ''Block'' \<and>
   dslRuleHandler (js_env void_ops) (Assignment (Some 3) ''x'' (Literal None (Num 1)))
       (Some ''Function'') 0 \<lparr>heap = [plain Map.empty], errlog = []\<rparr>
     = (Undefined, \<lparr>heap = [plain Map.empty], errlog = [InvalidPosition (Some 3)]\<rparr>) \<and>
   executeCalleeAndArgs (js_env void_ops) [Assignment (Some 3) ''x'' (Literal None (Num 1))] 0
       \<lparr>heap = [plain Map.empty], errlog = []\<rparr>
     = ([Undefined], \<lparr>heap = [plain Map.empty], errlog = [InvalidPosition (Some 3)]\<rparr>) \<and>
   arrayLoop (js_env void_ops) [Assignment (Some 3) ''x'' (Literal None (Num 1))] 0 []
       \<lparr>heap = [plain Map.empty], errlog = []\<rparr>
     = ([], \<lparr>heap = [plain Map.empty], errlog = [InvalidPosition (Some 3)]\<rparr>)"
  using assignment_outside_block_fails
          [of "Some ''Function''" "js_env void_ops" "Some 3" "''x''" "Literal None (Num 1)" 0
              "\<lparr>heap = [plain Map.empty], errlog = []\<rparr>" "[]" "[]"]
  by (simp add: report_def)

section \<open>Literals\<close>

text \<open>
  C9. A Literal node whose value is a number evaluates to exactly that value, with the
  state untouched. A Literal node whose value is not a number makes
  \<^verbatim>\<open>literalRuleHandler\<close> throw (TypeMismatch); the dispatcher logs the diagnostic
  and the node's value is \<^verbatim>\<open>undefined\<close>.
\<close>

theorem literal_number_or_type_mismatch:
  "dslRuleHandler env (Literal i v) pN b s =
     (if is_number v then (v, s) else (Undefined, report (TypeMismatch i) s))"
  by (simp add: dslRuleHandler.simps literalRuleHandler_def)

theorem literal_number_or_type_mismatch_witness:
  "dslRuleHandler (js_env void_ops) (Literal (Some 1) (Num 4)) None 0
       \<lparr>heap = [plain Map.empty], errlog = []\<rparr>
     = (Num 4, \<lparr>heap = [plain Map.empty], errlog = []\<rparr>) \<and>
   dslRuleHandler (js_env void_ops) (Literal (Some 1) (Str ''x'')) None 0
       \<lparr>heap = [plain Map.empty], errlog = []\<rparr>
     = (Undefined, \<lparr>heap = [plain Map.empty], errlog = [TypeMismatch (Some 1)]\<rparr>)"
  using literal_number_or_type_mismatch
          [of "js_env void_ops" "Some 1" "Num 4" None 0
              "\<lparr>heap = [plain Map.empty], errlog = []\<rparr>"]
        literal_number_or_type_mismatch
          [of "js_env void_ops" "Some 1" "Str ''x''" None 0
              "\<lparr>heap = [plain Map.empty], errlog = []\<rparr>"]
  by (simp add: report_def)

section \<open>Function calls\<close>

text \<open>
  C7. A Function node, in an existing scope in which the callee's name resolves to a
  host operation \<open>Fn f\<close>: the arguments are evaluated in order, each in the state its
  predecessor left and all in that same scope (\<open>evalInOrder\<close>), one value per argument,
  so every argument is evaluated; the operation is applied to the first two values,
  \<^verbatim>\<open>undefined\<close> standing for a missing first or second one; what the operation
  returns is the node's value. (If the operation throws, the node's value is
  \<^verbatim>\<open>undefined\<close> and an OperationError is logged.)
\<close>

theorem function_applies_first_two_arguments:
  fixes env :: "'n::zero env"
  assumes "b < length (heap s)"
    and "lookup env (heap s ! b) (name c) = Fn f"
    and "executeCalleeAndArgs env as b s = (args, s1)"
  shows "(args, s1) = evalInOrder env as (Some ''Function'') b s \<and>
         length args = length as \<and>
         dslRuleHandler env (Function i c as) pN b s =
           (case ops env f (arg args 0) (arg args 1) of
              Inr r \<Rightarrow> (r, s1)
            | Inl e \<Rightarrow> (Undefined, report (OperationError i e) s1)) \<and>
         arg args 0 = (case args of [] \<Rightarrow> Undefined | x # xs \<Rightarrow> x) \<and>
         arg args 1 = (case args of x # y # ys \<Rightarrow> y | _ \<Rightarrow> Undefined)"
proof -
  have inorder: "(args, s1) = evalInOrder env as (Some ''Function'') b s"
    using assms(3) by (simp add: execute_evalInOrder)
  have len: "length args = length as"
    using evalInOrder_length[of env as "Some ''Function''" b s] inorder
    by (metis fst_conv)
  have call: "dslRuleHandler env (Function i c as) pN b s =
           (case ops env f (arg args 0) (arg args 1) of
              Inr r \<Rightarrow> (r, s1)
            | Inl e \<Rightarrow> (Undefined, report (OperationError i e) s1))"
    using function_dispatch[OF assms(1) assms(3), of i c pN] assms(2)
    by (simp split: sum.splits)
  have a0: "arg args 0 = (case args of [] \<Rightarrow> Undefined | x # xs \<Rightarrow> x)"
    by (simp add: arg_def split: list.splits)
  have a1: "arg args 1 = (case args of x # y # ys \<Rightarrow> y | _ \<Rightarrow> Undefined)"
    by (simp add: arg_def split: list.splits)
  from inorder len call a0 a1 show ?thesis by simp
qed

theorem function_applies_first_two_arguments_witness:
  "(0::nat) < length (heap (\<lparr>heap = [plain [''add'' \<mapsto> Fn 0]], errlog = []\<rparr> :: number state)) \<and>
   lookup (js_env scenario_ops)
     (heap (\<lparr>heap = [plain [''add'' \<mapsto> Fn 0]], errlog = []\<rparr> :: number state) ! 0)
     (name (Callee ''add'')) = Fn 0 \<and>
   executeCalleeAndArgs (js_env scenario_ops)
       [Literal None (Num (Finite 1)), Literal None (Num (Finite 2)), Literal (Some 9) (Str ''x'')]
       0 \<lparr>heap = [plain [''add'' \<mapsto> Fn 0]], errlog = []\<rparr>
     = ([Num (Finite 1), Num (Finite 2), Undefined],
        \<lparr>heap = [plain [''add'' \<mapsto> Fn 0]], errlog = [TypeMismatch (Some 9)]\<rparr>) \<and>
   dslRuleHandler (js_env scenario_ops)
       (Function (Some 5) (Callee ''add'')
          [Literal None (Num (Finite 1)), Literal None (Num (Finite 2)), Literal (Some 9) (Str ''x'')])
       None 0 \<lparr>heap = [plain [''add'' \<mapsto> Fn 0]], errlog = []\<rparr>
     = (Num (Finite 3), \<lparr>heap = [plain [''add'' \<mapsto> Fn 0]], errlog = [TypeMismatch (Some 9)]\<rparr>)"
proof -
  let ?s = "\<lparr>heap = [plain [''add'' \<mapsto> Fn 0]], errlog = []\<rparr> :: number state"
  let ?s1 = "\<lparr>heap = [plain [''add'' \<mapsto> Fn 0]], errlog = [TypeMismatch (Some 9)]\<rparr>
              :: number state"
  let ?as = "[Literal None (Num (Finite 1)), Literal None (Num (Finite 2)),
              Literal (Some 9) (Str ''x'')] :: number node list"
  have h1: "(0::nat) < length (heap ?s)" by simp
  have h2: "lookup (js_env scenario_ops) (heap ?s ! 0) (name (Callee ''add'')) = Fn 0"
    by (simp add: lookup_def plain_def)
  have h3: "executeCalleeAndArgs (js_env scenario_ops) ?as 0 ?s
              = ([Num (Finite 1), Num (Finite 2), Undefined], ?s1)"
    by (simp add: dslRuleHandler.simps literalRuleHandler_def report_def)
  from function_applies_first_two_arguments[OF h1 h2 h3, of "Some 5" None]
  have "dslRuleHandler (js_env scenario_ops) (Function (Some 5) (Callee ''add'') ?as) None 0 ?s =
          (case ops (js_env scenario_ops) 0 (arg [Num (Finite 1), Num (Finite 2), Undefined] 0)
                  (arg [Num (Finite 1), Num (Finite 2), Undefined] 1) of
             Inr r \<Rightarrow> (r, ?s1)
           | Inl e \<Rightarrow> (Undefined, report (OperationError (Some 5) e) ?s1))"
    by blast
  then have r: "dslRuleHandler (js_env scenario_ops) (Function (Some 5) (Callee ''add'') ?as)
          None 0 ?s = (Num (Finite 3), ?s1)"
    by (simp add: arg_def js_env_def scenario_ops_def add_def)
  show ?thesis
    by (intro conjI) (rule h1 h2 h3 r)+
qed



section \<open>The failure boundary\<close>

text \<open>
  C3. Whenever the rule selected for a node throws an error \<open>e\<close>, leaving the state
  \<open>s'\<close>, the dispatcher invocation for that very node returns \<^verbatim>\<open>undefined\<close> and
  appends \<open>e\<close> to the log; \<open>e\<close> is one of the four errors and carries this node's id
  (an error of a descendant was already contained at the descendant, and an error of a
  host operation arrives wrapped as this node's OperationError); the evaluation only
  added scopes and diagnostics, leaving every other existing scope as it was. A run
  whose only top-level node fails so returns the empty mapping and the log. The
  evaluator and \<^verbatim>\<open>run\<close> are total functions that return a value and a state: no
  error reaches the caller of \<^verbatim>\<open>run\<close>.
\<close>

theorem dispatcher_contains_errors:
  fixes env :: "'n::zero env"
  assumes "switch env node pN b s = (Inl e, s')"
  shows "dslRuleHandler env node pN b s = (Undefined, report e s') \<and>
         (e = TypeMismatch (id_of node) \<or> e = InvalidPosition (id_of node) \<or>
          e = NotAFunction (id_of node) \<or> (\<exists>m. e = OperationError (id_of node) m)) \<and>
         frame (if pN = Some ''Block'' then {b} else {}) s (report e s') \<and>
         (b = 0 \<and> s = \<lparr>heap = [m], errlog = []\<rparr>
            \<longrightarrow> run env \<lparr>root_shape = pN, nodes = [node], bindings = m\<rparr> ids
                  = (Map.empty, report e s'))"
proof -
  have r: "dslRuleHandler env node pN b s = (Undefined, report e s')"
    using assms by (simp add: dslRuleHandler.simps)
  from eval_frame(1)[of pN b s env node] r
  have f: "frame (if pN = Some ''Block'' then {b} else {}) s (report e s')" by simp
  have u: "b = 0 \<and> s = \<lparr>heap = [m], errlog = []\<rparr>
            \<longrightarrow> run env \<lparr>root_shape = pN, nodes = [node], bindings = m\<rparr> ids
                  = (Map.empty, report e s')"
  proof
    assume "b = 0 \<and> s = \<lparr>heap = [m], errlog = []\<rparr>"
    with r have "dslRuleHandler env node pN 0 \<lparr>heap = [m], errlog = []\<rparr>
                   = (Undefined, report e s')"
      by simp
    then show "run env \<lparr>root_shape = pN, nodes = [node], bindings = m\<rparr> ids
                 = (Map.empty, report e s')"
      by (simp add: run_def)
  qed
  show ?thesis
    by (intro conjI) (rule r switch_error_is_own[OF assms] f u)+
qed

theorem dispatcher_contains_errors_witness:
  "switch (js_env throwing_ops) (Function (Some 7) (Callee ''f'') [Literal (Some 8) Null]) None 0
       \<lparr>heap = [plain [''f'' \<mapsto> Fn 0]], errlog = []\<rparr>
     = (Inl (OperationError (Some 7) ''boom''),
        \<lparr>heap = [plain [''f'' \<mapsto> Fn 0]], errlog = [TypeMismatch (Some 8)]\<rparr>) \<and>
   dslRuleHandler (js_env throwing_ops) (Function (Some 7) (Callee ''f'') [Literal (Some 8) Null])
       None 0 \<lparr>heap = [plain [''f'' \<mapsto> Fn 0]], errlog = []\<rparr>
     = (Undefined, \<lparr>heap = [plain [''f'' \<mapsto> Fn 0]],
                    errlog = [TypeMismatch (Some 8), OperationError (Some 7) ''boom'']\<rparr>) \<and>
   run (js_env throwing_ops)
       \<lparr>root_shape = None, nodes = [Function (Some 7) (Callee ''f'') [Literal (Some 8) Null]],
        bindings = plain [''f'' \<mapsto> Fn 0]\<rparr> [Some 7]
     = (Map.empty, \<lparr>heap = [plain [''f'' \<mapsto> Fn 0]],
                    errlog = [TypeMismatch (Some 8), OperationError (Some 7) ''boom'']\<rparr>)"
proof -
  let ?s = "\<lparr>heap = [plain [''f'' \<mapsto> Fn 0]], errlog = []\<rparr> :: int state"
  let ?s1 = "\<lparr>heap = [plain [''f'' \<mapsto> Fn 0]], errlog = [TypeMismatch (Some 8)]\<rparr> :: int state"
  let ?n = "Function (Some 7) (Callee ''f'') [Literal (Some 8) Null] :: int node"
  have h: "switch (js_env throwing_ops) ?n None 0 ?s
             = (Inl (OperationError (Some 7) ''boom''), ?s1)"
    by (simp add: functionRuleHandler.simps dslRuleHandler.simps literalRuleHandler_def
        report_def lookup_def plain_def js_env_def throwing_ops_def)
  note t = dispatcher_contains_errors[OF h, where m = "plain [''f'' \<mapsto> Fn 0]" and ids = "[Some 7]"]
  from t have "dslRuleHandler (js_env throwing_ops) ?n None 0 ?s
                 = (Undefined, report (OperationError (Some 7) ''boom'') ?s1)"
    by blast
  then have r: "dslRuleHandler (js_env throwing_ops) ?n None 0 ?s
        = (Undefined, \<lparr>heap = [plain [''f'' \<mapsto> Fn 0]],
                       errlog = [TypeMismatch (Some 8), OperationError (Some 7) ''boom'']\<rparr>)"
    by (simp add: report_def)
  from t have "run (js_env throwing_ops)
                 \<lparr>root_shape = None, nodes = [?n], bindings = plain [''f'' \<mapsto> Fn 0]\<rparr>
                 [Some 7] = (Map.empty, report (OperationError (Some 7) ''boom'') ?s1)"
    by blast
  then have u: "run (js_env throwing_ops)
                 \<lparr>root_shape = None, nodes = [?n], bindings = plain [''f'' \<mapsto> Fn 0]\<rparr>
                 [Some 7]
        = (Map.empty, \<lparr>heap = [plain [''f'' \<mapsto> Fn 0]],
                       errlog = [TypeMismatch (Some 8), OperationError (Some 7) ''boom'']\<rparr>)"
    by (simp add: report_def)
  show ?thesis
    by (intro conjI) (rule h r u)+
qed

section \<open>Blocks\<close>






section \<open>Undefined as the no-value marker\<close>




end
